theory Spec2Isabelle
  imports Complex_Main "HOL-Library.Sublist"
begin

section \<open>Text primitives of the host language\<close>

text \<open>
  Source text is a \<^typ>\<open>string\<close>: a list of characters, each a code point below 256.
  The character classes below are the ones Python's \<open>str\<close> methods and its \<open>re\<close>
  module use on that range.
\<close>

definition code_of :: "char \<Rightarrow> nat" where
  "code_of c = of_char c"

text \<open>\<open>str.isspace\<close> on one character; also the class \<open>\s\<close> of a \<open>str\<close> pattern.\<close>

definition isspace :: "char \<Rightarrow> bool" where
  "isspace c =
     (let n = code_of c
      in (9 \<le> n \<and> n \<le> 13) \<or> (28 \<le> n \<and> n \<le> 32) \<or> n = 133 \<or> n = 160)"

text \<open>\<open>str.isalnum\<close> on one character.\<close>

definition isalnum :: "char \<Rightarrow> bool" where
  "isalnum c =
     (let n = code_of c
      in (48 \<le> n \<and> n \<le> 57) \<or> (65 \<le> n \<and> n \<le> 90) \<or> (97 \<le> n \<and> n \<le> 122)
         \<or> n = 170 \<or> n = 178 \<or> n = 179 \<or> n = 181 \<or> n = 185 \<or> n = 186
         \<or> (188 \<le> n \<and> n \<le> 190) \<or> (192 \<le> n \<and> n \<le> 214)
         \<or> (216 \<le> n \<and> n \<le> 246) \<or> (248 \<le> n \<and> n \<le> 255))"

text \<open>The class \<open>\w\<close> of a \<open>str\<close> pattern: alphanumeric or underscore.\<close>

definition isword :: "char \<Rightarrow> bool" where
  "isword c = (isalnum c \<or> c = CHR ''_'')"

definition lstrip :: "string \<Rightarrow> string" where
  "lstrip s = dropWhile isspace s"

definition rstrip :: "string \<Rightarrow> string" where
  "rstrip s = rev (dropWhile isspace (rev s))"

definition strip :: "string \<Rightarrow> string" where
  "strip s = rstrip (lstrip s)"

text \<open>\<open>s.split(sep)\<close> for a one-character separator: never an empty list.\<close>

fun split :: "char \<Rightarrow> string \<Rightarrow> string list" where
  "split sep [] = [[]]"
| "split sep (c # cs) =
     (if c = sep then [] # split sep cs
      else (case split sep cs of
              [] \<Rightarrow> [[c]]
            | l # ls \<Rightarrow> (c # l) # ls))"

text \<open>\<open>w in s\<close> on strings: \<open>w\<close> occurs in \<open>s\<close> as a contiguous piece.\<close>

fun str_in :: "string \<Rightarrow> string \<Rightarrow> bool" where
  "str_in w [] = (w = [])"
| "str_in w (c # cs) = (take (length w) (c # cs) = w \<or> str_in w cs)"

text \<open>\<open>str(n)\<close> for a non-negative integer.\<close>

definition digit_char :: "nat \<Rightarrow> char" where
  "digit_char d = ''0123456789'' ! d"

function str_nat :: "nat \<Rightarrow> string" where
  "str_nat n = (if n < 10 then [digit_char n] else str_nat (n div 10) @ [digit_char (n mod 10)])"
  by pat_completeness auto
termination
  by (relation "measure id") auto

declare str_nat.simps [simp del]

text \<open>\<open>sep.join(parts)\<close>.\<close>

fun join :: "string \<Rightarrow> string list \<Rightarrow> string" where
  "join sep [] = []"
| "join sep [p] = p"
| "join sep (p # q # ps) = p @ sep @ join sep (q # ps)"

text \<open>
  \<open>str.title\<close> and \<open>str.replace\<close> on ASCII text, which is all they are applied to here
  (the rule names of the catalog): a letter that follows a letter is lowered, any other
  letter is raised.
\<close>

definition is_upper :: "char \<Rightarrow> bool" where
  "is_upper c = (65 \<le> code_of c \<and> code_of c \<le> 90)"

definition is_lower :: "char \<Rightarrow> bool" where
  "is_lower c = (97 \<le> code_of c \<and> code_of c \<le> 122)"

definition to_upper :: "char \<Rightarrow> char" where
  "to_upper c = (if is_lower c then char_of (code_of c - 32) else c)"

definition to_lower :: "char \<Rightarrow> char" where
  "to_lower c = (if is_upper c then char_of (code_of c + 32) else c)"

fun title_from :: "bool \<Rightarrow> string \<Rightarrow> string" where
  "title_from previous_is_cased [] = []"
| "title_from previous_is_cased (c # cs) =
     (if previous_is_cased then to_lower c else to_upper c)
       # title_from (is_upper c \<or> is_lower c) cs"

definition title :: "string \<Rightarrow> string" where
  "title s = title_from False s"

definition replace_char :: "char \<Rightarrow> char \<Rightarrow> string \<Rightarrow> string" where
  "replace_char old new s = map (\<lambda>c. if c = old then new else c) s"

section \<open>Regular expressions as the catalog uses them\<close>

text \<open>
  The rules are regular expressions handed to \<open>re.search\<close>. The constructs below are
  the ones that occur in the catalog; \<open>AtLeast n r\<close> is \<open>r{n,}\<close>, so \<open>r*\<close> is
  \<open>AtLeast 0 r\<close> and \<open>r+\<close> is \<open>AtLeast 1 r\<close>. Groups only bracket, since no rule reads
  what a group captured.
\<close>

datatype cset = CChar char | CRange char char

datatype regex =
    Lit string
  | Dot
  | Space
  | Word
  | OneOf "cset list"
  | NoneOf "cset list"
  | Bol
  | Eol
  | Seq regex regex
  | Alt regex regex
  | AtLeast nat regex
  | NotAhead regex

fun in_cset :: "char \<Rightarrow> cset \<Rightarrow> bool" where
  "in_cset c (CChar d) = (c = d)"
| "in_cset c (CRange lo hi) = (code_of lo \<le> code_of c \<and> code_of c \<le> code_of hi)"

text \<open>One character of a class at position \<open>i\<close> of \<open>s\<close>: the positions where the match can end.\<close>

definition one_char :: "(char \<Rightarrow> bool) \<Rightarrow> string \<Rightarrow> nat \<Rightarrow> nat list" where
  "one_char P s i = (if i < length s \<and> P (s ! i) then [Suc i] else [])"

text \<open>Exactly \<open>k\<close> repetitions of a step \<open>f\<close> from position \<open>i\<close>.\<close>

fun exactly :: "(nat \<Rightarrow> nat list) \<Rightarrow> nat \<Rightarrow> nat \<Rightarrow> nat list" where
  "exactly f k i = (if k = 0 then [i] else concat (map (exactly f (k - 1)) (f i)))"

declare exactly.simps [simp del]

text \<open>
  Any number of repetitions of a step \<open>f\<close> from position \<open>i\<close> in a text of length \<open>n\<close>.
  A repetition that consumes nothing leads to no new position, so only the repetitions
  that advance are followed; no match ends beyond \<open>n\<close>.
\<close>

function star_ends :: "(nat \<Rightarrow> nat list) \<Rightarrow> nat \<Rightarrow> nat \<Rightarrow> nat list" where
  "star_ends f n i = i # concat (map (star_ends f n) (filter (\<lambda>j. i < j \<and> j \<le> n) (f i)))"
  by pat_completeness auto
termination
  by (relation "measure (\<lambda>(f, n, i). n - i)") auto

declare star_ends.simps [simp del]

text \<open>
  \<open>ends r s i\<close>: the positions where a match of \<open>r\<close> that starts at position \<open>i\<close> of \<open>s\<close>
  can end. \<open>^\<close> holds at the start of the text; \<open>$\<close> holds at its end and before a
  newline that is its last character; \<open>.\<close> is any character but a newline.
\<close>

primrec ends :: "regex \<Rightarrow> string \<Rightarrow> nat \<Rightarrow> nat list" where
  "ends (Lit w) s i = (if take (length w) (drop i s) = w then [i + length w] else [])"
| "ends Dot s i = one_char (\<lambda>c. c \<noteq> CHR 0x0A) s i"
| "ends Space s i = one_char isspace s i"
| "ends Word s i = one_char isword s i"
| "ends (OneOf cs) s i = one_char (\<lambda>c. list_ex (in_cset c) cs) s i"
| "ends (NoneOf cs) s i = one_char (\<lambda>c. \<not> list_ex (in_cset c) cs) s i"
| "ends Bol s i = (if i = 0 then [i] else [])"
| "ends Eol s i =
     (if i = length s \<or> (Suc i = length s \<and> s ! i = CHR 0x0A) then [i] else [])"
| "ends (Seq a b) s i = concat (map (ends b s) (ends a s i))"
| "ends (Alt a b) s i = ends a s i @ ends b s i"
| "ends (AtLeast k r) s i =
     concat (map (star_ends (ends r s) (length s)) (exactly (ends r s) k i))"
| "ends (NotAhead r) s i = (if ends r s i = [] then [i] else [])"

text \<open>\<open>re.search(r, s)\<close> as a truth value: a match starts at some position of \<open>s\<close>.\<close>

definition re_search :: "regex \<Rightarrow> string \<Rightarrow> bool" where
  "re_search r s = list_ex (\<lambda>i. ends r s i \<noteq> []) [0..<Suc (length s)]"

text \<open>Writing aids for the catalog: a sequence, a choice between words, \<open>*\<close> and \<open>+\<close>.\<close>

fun seqs :: "regex list \<Rightarrow> regex" where
  "seqs [] = Lit []"
| "seqs [r] = r"
| "seqs (r # q # rs) = Seq r (seqs (q # rs))"

fun words :: "string list \<Rightarrow> regex" where
  "words [] = Lit []"
| "words [w] = Lit w"
| "words (w # v # ws) = Alt (Lit w) (words (v # ws))"

abbreviation star :: "regex \<Rightarrow> regex" where
  "star r \<equiv> AtLeast 0 r"

abbreviation plus1 :: "regex \<Rightarrow> regex" where
  "plus1 r \<equiv> AtLeast 1 r"

section \<open>Data model\<close>

text \<open>
  Issues, suggestions and the result are dictionaries with fixed keys in the source;
  a key that only some of them carry (\<open>lines\<close>, \<open>code_after\<close>) is an option.
\<close>

record issue_dict =
  type :: string
  description :: string
  lines :: "nat list option"

record suggestion_dict =
  issue :: string
  suggestion :: string
  code_before :: string
  code_after :: "string option"

record results =
  quality_score :: real
  issues :: "issue_dict list"
  suggestions :: "suggestion_dict list"

section \<open>The pattern catalog\<close>

text \<open>
  \<open>CodeAnalyzer.code_patterns\<close>: one rule table per language key, each an ordered
  list of rule name and regular expression, in the order the source writes them.
\<close>

definition quote_chars :: "cset list" where
  "quote_chars = [CChar (CHR 0x27), CChar (CHR 0x22)]"

text \<open>The tail \<open>\s*=\s*['"][^'"]+['"]\<close> that every \<open>hardcoded_secrets\<close> rule shares.\<close>

definition secret_assignment :: "string list \<Rightarrow> regex" where
  "secret_assignment names =
     seqs [words names, star Space, Lit ''='', star Space,
           OneOf quote_chars, plus1 (NoneOf quote_chars), OneOf quote_chars]"

text \<open>\<open>^.{80,}$\<close>\<close>

definition long_lines_rule :: regex where
  "long_lines_rule = seqs [Bol, AtLeast 80 Dot, Eol]"

text \<open>\<open>(?:\n\s+.*){20,}\<close>\<close>

definition indented_body :: regex where
  "indented_body = AtLeast 20 (seqs [Lit [CHR 0x0A], plus1 Space, star Dot])"

text \<open>\<open>def\s+\w+\s*\([^)]*\):\s*(?:\n\s+.*){20,}\<close>\<close>

definition python_complex_function :: regex where
  "python_complex_function =
     seqs [Lit ''def'', plus1 Space, plus1 Word, star Space, Lit ''('',
           star (NoneOf [CChar (CHR '')'')]), Lit ''):'', star Space, indented_body]"

definition python_patterns :: "(string \<times> regex) list" where
  "python_patterns =
    [(''hardcoded_secrets'',
        secret_assignment [''password'', ''secret'', ''api_key'', ''apikey'', ''token'']),
     (''print_statements'', Lit ''print(''),
     (''todo_comments'', seqs [Lit ''#'', star Space, Lit ''TODO'']),
     (''long_lines'', long_lines_rule),
     (''complex_function'', python_complex_function),
     (''unused_imports'',
        seqs [Lit ''import'', plus1 Space, plus1 Word, NotAhead (seqs [plus1 Space, Lit ''as''])]),
     (''bare_except'', Lit ''except:''),
     (''global_variables'',
        seqs [Bol, OneOf [CRange (CHR ''A'') (CHR ''Z''), CChar (CHR ''_'')],
              star (OneOf [CRange (CHR ''A'') (CHR ''Z''), CRange (CHR ''0'') (CHR ''9''),
                           CChar (CHR ''_'')]),
              star Space, Lit ''=''])]"

definition javascript_patterns :: "(string \<times> regex) list" where
  "javascript_patterns =
    [(''hardcoded_secrets'', secret_assignment [''password'', ''secret'', ''apiKey'', ''token'']),
     (''console_log'', Lit ''console.log(''),
     (''todo_comments'', seqs [Lit ''//'', star Space, Lit ''TODO'']),
     (''long_lines'', long_lines_rule),
     (''complex_function'',
        seqs [Lit ''function'', plus1 Space, plus1 Word, star Space, Lit ''('',
              star (NoneOf [CChar (CHR '')'')]), Lit '')'', star Space, Lit ''{'',
              indented_body, Lit ''}'']),
     (''var_use'', seqs [Lit ''var'', plus1 Space]),
     (''eval_use'', Lit ''eval('')]"

definition java_patterns :: "(string \<times> regex) list" where
  "java_patterns =
    [(''hardcoded_secrets'', secret_assignment [''password'', ''secret'', ''apiKey'', ''token'']),
     (''system_out'', Lit ''System.out.println''),
     (''todo_comments'', seqs [Lit ''//'', star Space, Lit ''TODO'']),
     (''long_lines'', long_lines_rule),
     (''complex_method'',
        seqs [words [''public'', ''private'', ''protected''], plus1 Space, plus1 Word,
              plus1 Space, plus1 Word, star Space, Lit ''('',
              star (NoneOf [CChar (CHR '')'')]), Lit '')'', star Space, Lit ''{'',
              indented_body, Lit ''}'']),
     (''catch_exception'',
        seqs [Lit ''catch'', star Space, Lit ''('', star Space, Lit ''Exception'', plus1 Space]),
     (''magic_numbers'',
        seqs [NoneOf [CChar (CHR 0x5C)], plus1 Space,
              plus1 (OneOf [CRange (CHR ''0'') (CHR ''9'')]), plus1 Space])]"

definition default_patterns :: "(string \<times> regex) list" where
  "default_patterns =
    [(''hardcoded_secrets'', secret_assignment [''password'', ''secret'', ''apiKey'', ''token'']),
     (''todo_comments'', seqs [words [''//'', ''#''], star Space, Lit ''TODO'']),
     (''long_lines'', long_lines_rule)]"

definition code_patterns :: "(string \<times> (string \<times> regex) list) list" where
  "code_patterns =
    [(''python'', python_patterns),
     (''javascript'', javascript_patterns),
     (''java'', java_patterns),
     (''default'', default_patterns)]"

section \<open>The line scanner\<close>

text \<open>\<open>', '.join(map(str, matches))\<close>\<close>

definition joined_lines :: "nat list \<Rightarrow> string" where
  "joined_lines matches = join '', '' (map str_nat matches)"

text \<open>The dictionary \<open>issue_descriptions\<close>, built for the matches of the rule at hand.\<close>

definition issue_descriptions :: "nat list \<Rightarrow> (string \<times> string) list" where
  "issue_descriptions matches =
    [(''hardcoded_secrets'', ''Potential hardcoded secrets found on lines: '' @ joined_lines matches),
     (''print_statements'', ''Print statements found on lines: '' @ joined_lines matches),
     (''todo_comments'', ''TODO comments found on lines: '' @ joined_lines matches),
     (''long_lines'', ''Long lines (>80 chars) found on lines: '' @ joined_lines matches),
     (''complex_function'', ''Complex function detected. Consider breaking it down.''),
     (''unused_imports'', ''Potentially unused imports detected.''),
     (''bare_except'', ''Bare except clauses found. Consider catching specific exceptions.''),
     (''global_variables'', ''Global variables detected. Consider encapsulation.''),
     (''console_log'', ''Console log statements found on lines: '' @ joined_lines matches),
     (''var_use'', ''Use of 'var' keyword. Consider using 'let' or 'const'.''),
     (''eval_use'', ''Use of eval() detected. This can be a security risk.''),
     (''system_out'', ''System.out.println found on lines: '' @ joined_lines matches),
     (''catch_exception'', ''Catching generic Exception. Consider catching specific exceptions.''),
     (''magic_numbers'', ''Magic numbers detected. Consider using named constants.'')]"

text \<open>The inner loop: the 1-based numbers of the lines where the rule matches.\<close>

definition find_matches :: "regex \<Rightarrow> string list \<Rightarrow> nat list" where
  "find_matches pattern ls =
     map (\<lambda>(i, line). i + 1) (filter (\<lambda>(i, line). re_search pattern line) (enumerate 0 ls))"

text \<open>\<open>pattern_name.replace('_', ' ').title()\<close>\<close>

definition issue_type_of :: "string \<Rightarrow> string" where
  "issue_type_of pattern_name = title (replace_char (CHR ''_'') (CHR '' '') pattern_name)"

text \<open>One round of the outer loop: what one rule appends to \<open>issues\<close>.\<close>

definition rule_issues :: "string list \<Rightarrow> string \<times> regex \<Rightarrow> issue_dict list" where
  "rule_issues ls = (\<lambda>(pattern_name, pattern).
     let matches = find_matches pattern ls
     in if matches \<noteq> [] then
          (case map_of (issue_descriptions matches) pattern_name of
             Some d \<Rightarrow>
               [\<lparr>type = issue_type_of pattern_name, description = d, lines = Some matches\<rparr>]
           | None \<Rightarrow> [])
        else [])"

definition select_patterns :: "string \<Rightarrow> (string \<times> regex) list" where
  "select_patterns file_extension =
     (case map_of code_patterns file_extension of
        Some patterns \<Rightarrow> patterns
      | None \<Rightarrow> default_patterns)"

definition pattern_analysis :: "string \<Rightarrow> string \<Rightarrow> issue_dict list" where
  "pattern_analysis code file_extension =
     (let patterns = select_patterns file_extension;
          ls = split (CHR 0x0A) code
      in concat (map (rule_issues ls) patterns))"

section \<open>The heuristic analyzer\<close>

definition indentation :: "string \<Rightarrow> nat" where
  "indentation line = length line - length (lstrip line)"

definition max_indentation :: "string list \<Rightarrow> nat" where
  "max_indentation ls = fold (\<lambda>line m. max m (indentation line)) ls 0"

definition code_size_issue :: issue_dict where
  "code_size_issue =
     \<lparr>type = ''Code Size'',
      description = ''File is quite large. Consider breaking it into smaller modules.'',
      lines = None\<rparr>"

definition deep_nesting_issue :: issue_dict where
  "deep_nesting_issue =
     \<lparr>type = ''Deep Nesting'',
      description = ''Code contains deeply nested blocks. Consider refactoring to reduce nesting.'',
      lines = None\<rparr>"

definition exception_handling_issue :: issue_dict where
  "exception_handling_issue =
     \<lparr>type = ''Exception Handling'',
      description = ''Generic exception handling detected. Consider catching specific exceptions.'',
      lines = None\<rparr>"

definition type_comparison_issue :: issue_dict where
  "type_comparison_issue =
     \<lparr>type = ''Type Comparison'',
      description = ''Use of loose equality (==) detected. Consider using strict equality (===).'',
      lines = None\<rparr>"

definition main_method_size_issue :: issue_dict where
  "main_method_size_issue =
     \<lparr>type = ''Main Method Size'',
      description = ''Large main method detected. Consider breaking functionality into separate methods.'',
      lines = None\<rparr>"

definition language_concerns :: "string \<Rightarrow> string list \<Rightarrow> string \<Rightarrow> issue_dict list" where
  "language_concerns code ls file_extension =
     (if file_extension = ''py'' then
        (if str_in ''except Exception as e:'' code \<or> str_in ''except:'' code
         then [exception_handling_issue] else [])
      else if file_extension = ''js'' then
        (if str_in ''=='' code \<and> \<not> str_in ''==='' code
         then [type_comparison_issue] else [])
      else if file_extension = ''java'' then
        (if str_in ''public static void main'' code \<and> length ls > 100
         then [main_method_size_issue] else [])
      else [])"

definition simulated_ai_analysis :: "string \<Rightarrow> string \<Rightarrow> issue_dict list" where
  "simulated_ai_analysis code file_extension =
     (let ls = split (CHR 0x0A) code
      in (if length ls > 200 then [code_size_issue] else [])
         @ (if max_indentation ls > 16 then [deep_nesting_issue] else [])
         @ language_concerns code ls file_extension)"

section \<open>The suggestion synthesizer\<close>

text \<open>The tables \<open>solutions\<close>, \<open>code_after\<close> and \<open>lang_map\<close> of \<open>_generate_suggestions\<close>.\<close>

definition solutions :: "(string \<times> suggestion_dict) list" where
  \<open>solutions =
    [(''Hardcoded Secrets'',
      \<lparr>issue = ''Hardcoded credentials or API keys were found in your code.'',
       suggestion = ''Use environment variables or a secure configuration system for sensitive data.'',
       code_before = ''api_key = 'ac87520ee84f3'' @ [CHR 0x27],
       code_after = None\<rparr>),
     (''Print Statements'',
      \<lparr>issue = ''Debug print statements were found in production code.'',
       suggestion = ''Replace print statements with proper logging mechanisms.'',
       code_before = ''print('Debug value:', x)'',
       code_after = None\<rparr>),
     (''Long Lines'',
      \<lparr>issue = ''Code contains excessively long lines that reduce readability.'',
       suggestion = ''Break long lines into multiple lines following style guides.'',
       code_before = ''def very_long_function_name(extremely_long_parameter_name1, extremely_long_parameter_name2, extremely_long_parameter_name3, extremely_long_parameter_name4):'',
       code_after = None\<rparr>),
     (''Complex Function'',
      \<lparr>issue = ''Complex, lengthy functions were detected.'',
       suggestion = ''Break down complex functions into smaller, more manageable ones that follow the single responsibility principle.'',
       code_before = ''def process_data(data):\<newline>    # 50+ lines of code with multiple responsibilities'',
       code_after = None\<rparr>),
     (''Console Log'',
      \<lparr>issue = ''Debug console.log statements were found in production code.'',
       suggestion = ''Replace console.log with proper logging mechanisms or remove them in production.'',
       code_before = ''console.log('Debug info:', data);'',
       code_after = None\<rparr>),
     (''Var Use'',
      \<lparr>issue = ''Usage of 'var' keyword which has function scope.'',
       suggestion = ''Replace 'var' with 'const' for variables that don't change, or 'let' for those that do.'',
       code_before = ''var userId = 42;'',
       code_after = None\<rparr>),
     (''Bare Except'',
      \<lparr>issue = ''Catching exceptions without specifying the exception type.'',
       suggestion = ''Catch specific exceptions rather than using bare except clauses.'',
       code_before = ''try:\<newline>    risky_operation()\<newline>except:\<newline>    handle_error()'',
       code_after = None\<rparr>)]\<close>

definition code_after_examples :: "(string \<times> (string \<times> string) list) list" where
  \<open>code_after_examples =
    [(''Hardcoded Secrets'',
       [(''py'',
         ''import os\<newline>api_key = os.environ.get('API_KEY')''),
        (''js'',
         ''const apiKey = process.env.API_KEY;''),
        (''java'',
         ''String apiKey = System.getenv("API_KEY");'')]),
     (''Print Statements'',
       [(''py'',
         ''import logging\<newline>logging.debug('Debug value: %s', x)''),
        (''js'',
         ''if (process.env.NODE_ENV !== 'production') {\<newline>  console.log('Debug value:', x);\<newline>}''),
        (''java'',
         ''Logger logger = Logger.getLogger(MyClass.class.getName());\<newline>logger.fine("Debug value: " + x);'')]),
     (''Long Lines'',
       [(''py'',
         ''def very_long_function_name(\<newline>    extremely_long_parameter_name1,\<newline>    extremely_long_parameter_name2,\<newline>    extremely_long_parameter_name3,\<newline>    extremely_long_parameter_name4\<newline>):''),
        (''js'',
         ''function veryLongFunctionName(\<newline>  extremelyLongParameterName1,\<newline>  extremelyLongParameterName2,\<newline>  extremelyLongParameterName3,\<newline>  extremelyLongParameterName4\<newline>) {''),
        (''java'',
         ''public void veryLongMethodName(\<newline>    String extremelyLongParameterName1,\<newline>    String extremelyLongParameterName2,\<newline>    String extremelyLongParameterName3,\<newline>    String extremelyLongParameterName4\<newline>) {'')]),
     (''Complex Function'',
       [(''py'',
         ''def process_data(data):\<newline>    validated_data = validate_data(data)\<newline>    processed_data = transform_data(validated_data)\<newline>    return save_results(processed_data)\<newline>\<newline>def validate_data(data):\<newline>    # Validation logic here\<newline>    return validated_data\<newline>\<newline>def transform_data(data):\<newline>    # Transformation logic here\<newline>    return transformed_data\<newline>\<newline>def save_results(data):\<newline>    # Saving logic here\<newline>    return result''),
        (''js'',
         ''function processData(data) {\<newline>  const validatedData = validateData(data);\<newline>  const processedData = transformData(validatedData);\<newline>  return saveResults(processedData);\<newline>}\<newline>\<newline>function validateData(data) {\<newline>  // Validation logic here\<newline>  return validatedData;\<newline>}\<newline>\<newline>function transformData(data) {\<newline>  // Transformation logic here\<newline>  return transformedData;\<newline>}\<newline>\<newline>function saveResults(data) {\<newline>  // Saving logic here\<newline>  return result;\<newline>}''),
        (''java'',
         ''public Result processData(Data data) {\<newline>    Data validatedData = validateData(data);\<newline>    Data processedData = transformData(validatedData);\<newline>    return saveResults(processedData);\<newline>}\<newline>\<newline>private Data validateData(Data data) {\<newline>    // Validation logic here\<newline>    return validatedData;\<newline>}\<newline>\<newline>private Data transformData(Data data) {\<newline>    // Transformation logic here\<newline>    return transformedData;\<newline>}\<newline>\<newline>private Result saveResults(Data data) {\<newline>    // Saving logic here\<newline>    return result;\<newline>}'')]),
     (''Console Log'',
       [(''js'',
         ''import logger from './logger';\<newline>logger.debug('Debug info:', data);'')]),
     (''Var Use'',
       [(''js'',
         ''const userId = 42;'')]),
     (''Bare Except'',
       [(''py'',
         ''try:\<newline>    risky_operation()\<newline>except ValueError as e:\<newline>    handle_specific_error(e)\<newline>except Exception as e:\<newline>    handle_general_error(e)'')])]\<close>

definition lang_map :: "(string \<times> string) list" where
  "lang_map = [(''py'', ''py''), (''js'', ''js''), (''ts'', ''js''), (''java'', ''java''), (''default'', ''py'')]"

text \<open>\<open>lang_map.get(file_extension, 'default')\<close>: a missing key gives the word \<open>default\<close> itself.\<close>

definition lang_of :: "string \<Rightarrow> string" where
  "lang_of file_extension =
     (case map_of lang_map file_extension of Some l \<Rightarrow> l | None \<Rightarrow> ''default'')"

text \<open>The template with its \<open>code_after\<close> example, when the table has one for the language.\<close>

definition with_code_after :: "string \<Rightarrow> string \<Rightarrow> suggestion_dict \<Rightarrow> suggestion_dict" where
  "with_code_after key lang template =
     (case map_of code_after_examples key of
        None \<Rightarrow> template
      | Some examples \<Rightarrow>
          (case map_of examples lang of
             None \<Rightarrow> template
           | Some example \<Rightarrow> template\<lparr>code_after := Some example\<rparr>))"

text \<open>
  One round of the loop over the issues: skipped types give nothing; otherwise the first
  template whose key occurs in the issue type gives one suggestion.
\<close>

definition issue_suggestions :: "string \<Rightarrow> issue_dict \<Rightarrow> suggestion_dict list" where
  "issue_suggestions lang i =
     (let issue_type = type i
      in if issue_type \<in> set [''Todo Comments'', ''AI Analysis Error''] then []
         else (case find (\<lambda>(key, template). str_in key issue_type) solutions of
                 None \<Rightarrow> []
               | Some (key, template) \<Rightarrow> [with_code_after key lang template]))"

text \<open>The deduplication loop, with its set of advice texts seen so far.\<close>

fun deduplicate :: "suggestion_dict list \<Rightarrow> string set \<Rightarrow> suggestion_dict list \<Rightarrow> suggestion_dict list" where
  "deduplicate [] suggestion_texts unique_suggestions = unique_suggestions"
| "deduplicate (s # ss) suggestion_texts unique_suggestions =
     (if suggestion s \<notin> suggestion_texts
      then deduplicate ss (insert (suggestion s) suggestion_texts) (unique_suggestions @ [s])
      else deduplicate ss suggestion_texts unique_suggestions)"

text \<open>The list of suggestions before deduplication.\<close>

definition all_suggestions :: "issue_dict list \<Rightarrow> string \<Rightarrow> suggestion_dict list" where
  "all_suggestions is file_extension = concat (map (issue_suggestions (lang_of file_extension)) is)"

definition generate_suggestions :: "string \<Rightarrow> issue_dict list \<Rightarrow> string \<Rightarrow> suggestion_dict list" where
  "generate_suggestions code is file_extension = deduplicate (all_suggestions is file_extension) {} []"

section \<open>The orchestrator\<close>

definition empty_file_issue :: issue_dict where
  "empty_file_issue =
     \<lparr>type = ''Empty File'',
      description = ''The file appears to be empty or contains only whitespace.'',
      lines = None\<rparr>"

definition maintainability_issue :: issue_dict where
  "maintainability_issue =
     \<lparr>type = ''Code Maintainability'',
      description = ''Consider adding more inline documentation to improve code maintainability.'',
      lines = None\<rparr>"

text \<open>\<open>not code or len(code.strip()) == 0\<close>\<close>

definition is_blank :: "string \<Rightarrow> bool" where
  "is_blank code = (code = [] \<or> length (strip code) = 0)"

text \<open>The issues of a file that is not blank, before the random one.\<close>

definition found_issues :: "string \<Rightarrow> string \<Rightarrow> issue_dict list" where
  "found_issues code file_extension =
     pattern_analysis code file_extension @ simulated_ai_analysis code file_extension"

text \<open>
  \<open>analyze_code\<close>. The value that \<open>random.random()\<close> returns is the parameter
  \<open>rnd\<close>; the score is a float in the source and a real number here, every value it
  takes being a multiple of one half.
\<close>

definition analyze_code :: "real \<Rightarrow> string \<Rightarrow> string \<Rightarrow> string \<Rightarrow> string \<Rightarrow> results" where
  "analyze_code rnd code filename file_extension depth =
     (if is_blank code then
        \<lparr>quality_score = 5.0, issues = [empty_file_issue], suggestions = []\<rparr>
      else
        let found = found_issues code file_extension;
            is = (if rnd < 0.3 \<and> depth = ''Deep'' then found @ [maintainability_issue] else found);
            base_score = 10.0;
            penalty_per_issue = 0.5;
            score = max 1.0 (base_score - real (length is) * penalty_per_issue)
        in \<lparr>quality_score = score, issues = is,
            suggestions = generate_suggestions code is file_extension\<rparr>)"

section \<open>Notions used to state the properties\<close>

text \<open>The deduplication loop without its accumulator: the entries it keeps, in order.\<close>

fun keep_unseen :: "string set \<Rightarrow> suggestion_dict list \<Rightarrow> suggestion_dict list" where
  "keep_unseen seen [] = []"
| "keep_unseen seen (s # ss) =
     (if suggestion s \<in> seen then keep_unseen seen ss
      else s # keep_unseen (insert (suggestion s) seen) ss)"

text \<open>
  Deduplication by advice text as the specification words it: the entries whose advice
  text occurs at no earlier position, in the order of the list.
\<close>

definition first_occurrences :: "suggestion_dict list \<Rightarrow> suggestion_dict list" where
  "first_occurrences xs =
     map (\<lambda>i. xs ! i)
       (filter (\<lambda>i. list_all (\<lambda>j. suggestion (xs ! j) \<noteq> suggestion (xs ! i)) [0..<i])
          [0..<length xs])"

text \<open>How many issues of a list carry a given type.\<close>

definition count_type :: "string \<Rightarrow> issue_dict list \<Rightarrow> nat" where
  "count_type t is = length (filter (\<lambda>i. type i = t) is)"

text \<open>The number of whitespace characters a line starts with.\<close>

definition leading_width :: "string \<Rightarrow> nat" where
  "leading_width line = length (takeWhile isspace line)"

text \<open>
  The width as the specification words it: the number of space and tab characters a
  line starts with.
\<close>

definition space_tab_width :: "string \<Rightarrow> nat" where
  "space_tab_width line = length (takeWhile (\<lambda>c. c = CHR '' '' \<or> c = CHR 0x09) line)"

text \<open>The rule names of the four tables, and the issue types they lead to.\<close>

definition rule_names :: "string list" where
  "rule_names =
    [''hardcoded_secrets'', ''print_statements'', ''todo_comments'', ''long_lines'',
     ''complex_function'', ''unused_imports'', ''bare_except'', ''global_variables'',
     ''console_log'', ''var_use'', ''eval_use'', ''system_out'', ''complex_method'',
     ''catch_exception'', ''magic_numbers'']"

definition pattern_types :: "string list" where
  "pattern_types =
    [''Hardcoded Secrets'', ''Print Statements'', ''Todo Comments'', ''Long Lines'',
     ''Complex Function'', ''Unused Imports'', ''Bare Except'', ''Global Variables'',
     ''Console Log'', ''Var Use'', ''Eval Use'', ''System Out'', ''Complex Method'',
     ''Catch Exception'', ''Magic Numbers'']"

definition heuristic_types :: "string list" where
  "heuristic_types =
    [''Code Size'', ''Deep Nesting'', ''Exception Handling'', ''Type Comparison'',
     ''Main Method Size'']"

section \<open>Example inputs\<close>

text \<open>Five lines, the third one assigning a key; nothing else a rule or heuristic reacts to.\<close>

definition scenario_snippet :: string where
  \<open>scenario_snippet =
     ''x = 1\<newline>y = 2\<newline>api_key = "ac87520ee84f3"\<newline>z = x + y\<newline>w = z''\<close>

definition password_line :: string where
  \<open>password_line = ''password = "abc123"''\<close>

text \<open>A space, a tab and a carriage return on three lines.\<close>

definition blank_text :: string where
  "blank_text = [CHR '' '', CHR 0x0A, CHR 0x09, CHR 0x0D, CHR 0x0A]"

text \<open>Files of 250 and of 150 lines.\<close>

definition long_file :: string where
  "long_file = CHR ''x'' # replicate 249 (CHR 0x0A)"

definition short_file :: string where
  "short_file = CHR ''x'' # replicate 149 (CHR 0x0A)"

text \<open>Two lines, the second indented by 20 and by 8 spaces.\<close>

definition deep_text :: string where
  "deep_text = ''a:\<newline>'' @ replicate 20 (CHR '' '') @ ''x''"

definition shallow_text :: string where
  "shallow_text = ''a:\<newline>'' @ replicate 8 (CHR '' '') @ ''x''"

text \<open>
  Three lines that end in carriage return and line feed; the second holds 16 spaces only,
  as an editor leaves them on an empty line four levels deep.
\<close>

definition crlf_text :: string where
  "crlf_text =
     ''a:'' @ [CHR 0x0D, CHR 0x0A] @ replicate 16 (CHR '' '') @ [CHR 0x0D, CHR 0x0A] @ ''x''"

text \<open>A function header followed by 20 indented lines.\<close>

definition long_function :: string where
  "long_function = ''def f(x):'' @ concat (replicate 20 ''\<newline> print(x)'')"

text \<open>The issue of the \<open>hardcoded_secrets\<close> rule for a match on line \<open>n\<close> alone.\<close>

definition secrets_issue :: "nat \<Rightarrow> issue_dict" where
  "secrets_issue n =
     \<lparr>type = ''Hardcoded Secrets'',
      description = ''Potential hardcoded secrets found on lines: '' @ str_nat n,
      lines = Some [n]\<rparr>"

text \<open>The suggestion of the \<open>Hardcoded Secrets\<close> template, without a \<open>code_after\<close> example.\<close>

definition secrets_suggestion :: suggestion_dict where
  "secrets_suggestion =
     \<lparr>issue = ''Hardcoded credentials or API keys were found in your code.'',
      suggestion = ''Use environment variables or a secure configuration system for sensitive data.'',
      code_before = ''api_key = 'ac87520ee84f3'' @ [CHR 0x27],
      code_after = None\<rparr>"

text \<open>The issue of the \<open>print_statements\<close> rule for a match on line \<open>n\<close> alone.\<close>

definition print_issue :: "nat \<Rightarrow> issue_dict" where
  "print_issue n =
     \<lparr>type = ''Print Statements'',
      description = ''Print statements found on lines: '' @ str_nat n,
      lines = Some [n]\<rparr>"

text \<open>The suggestion of the \<open>Print Statements\<close> template, without a \<open>code_after\<close> example.\<close>

definition print_suggestion :: suggestion_dict where
  "print_suggestion =
     \<lparr>issue = ''Debug print statements were found in production code.'',
      suggestion = ''Replace print statements with proper logging mechanisms.'',
      code_before = ''print('Debug value:', x)'',
      code_after = None\<rparr>"

text \<open>Three issues, the first and the last of one type.\<close>

definition duplicate_issues :: "issue_dict list" where
  "duplicate_issues = [secrets_issue 1, print_issue 2, secrets_issue 3]"

section \<open>Blank text and the score\<close>

lemma strip_empty_iff: "strip s = [] \<longleftrightarrow> list_all isspace s"
proof (cases "dropWhile isspace s")
  case Nil
  have "strip s = []" unfolding strip_def lstrip_def rstrip_def Nil by simp
  moreover from Nil have "list_all isspace s" by (simp add: dropWhile_eq_Nil_conv list_all_iff)
  ultimately show ?thesis by simp
next
  case (Cons x xs)
  then have "dropWhile isspace s \<noteq> []" by simp
  then have "\<not> isspace (hd (dropWhile isspace s))" by (rule hd_dropWhile)
  with Cons have nx: "\<not> isspace x" by simp
  have "x \<in> set (dropWhile isspace s)" using Cons by simp
  then have "x \<in> set s" by (rule set_dropWhileD)
  with nx have "\<not> list_all isspace s" by (auto simp: list_all_iff)
  moreover have "rev (dropWhile isspace (rev (x # xs))) \<noteq> []"
    using nx by (auto simp: dropWhile_eq_Nil_conv)
  then have "strip s \<noteq> []" by (simp add: strip_def lstrip_def rstrip_def Cons)
  ultimately show ?thesis by simp
qed

lemma is_blank_iff: "is_blank code \<longleftrightarrow> list_all isspace code"
  by (auto simp: is_blank_def strip_empty_iff)

lemma issues_of_result:
  "\<not> is_blank code \<Longrightarrow>
   issues (analyze_code rnd code filename e depth) =
     found_issues code e @ (if rnd < 0.3 \<and> depth = ''Deep'' then [maintainability_issue] else [])"
  by (simp add: analyze_code_def Let_def)

lemma score_of_result:
  "\<not> is_blank code \<Longrightarrow>
   quality_score (analyze_code rnd code filename e depth) =
     max 1.0 (10.0 - 0.5 * real (length (issues (analyze_code rnd code filename e depth))))"
  by (simp add: analyze_code_def Let_def)

lemma scenario_not_blank: "\<not> is_blank scenario_snippet"
  by code_simp

lemma scenario_found_py: "found_issues scenario_snippet ''py'' = []"
  by code_simp

lemma scenario_found_python: "found_issues scenario_snippet ''python'' = [secrets_issue 3]"
  by code_simp

lemma scenario_issues_python:
  "issues (analyze_code 0 scenario_snippet ''scenario.py'' ''python'' ''Standard'') = [secrets_issue 3]"
  by (simp add: issues_of_result [OF scenario_not_blank] scenario_found_python)

lemma scenario_issues_py:
  "issues (analyze_code rnd scenario_snippet ''scenario.py'' ''py'' ''Standard'') = []"
  by (simp add: issues_of_result [OF scenario_not_blank] scenario_found_py)

text \<open>
  C1: for a text that is not empty and not made of whitespace only, and a depth other
  than \<open>Deep\<close>, the score is \<open>max(1.0, 10.0 - 0.5 * n)\<close> where \<open>n\<close> is the number of
  issues returned.
\<close>

theorem score_is_penalised_count:
  assumes "code \<noteq> []" and "\<not> list_all isspace code" and "depth \<noteq> ''Deep''"
  shows "quality_score (analyze_code rnd code filename file_extension depth) =
     max 1.0 (10.0 - 0.5 * real (length (issues (analyze_code rnd code filename file_extension depth))))"
proof -
  from assms(2) have "\<not> is_blank code" by (simp add: is_blank_iff)
  then show ?thesis by (rule score_of_result)
qed

theorem score_is_penalised_count_witness:
  "scenario_snippet \<noteq> [] \<and> \<not> list_all isspace scenario_snippet \<and> ''Standard'' \<noteq> ''Deep''
   \<and> quality_score (analyze_code 0 scenario_snippet ''scenario.py'' ''python'' ''Standard'') = 9.5"
proof -
  have h2: "\<not> list_all isspace scenario_snippet"
    using scenario_not_blank by (simp add: is_blank_iff)
  then have h1: "scenario_snippet \<noteq> []" by auto
  have h3: "''Standard'' \<noteq> ''Deep''" by simp
  have "quality_score (analyze_code 0 scenario_snippet ''scenario.py'' ''python'' ''Standard'') = 9.5"
    using score_is_penalised_count [OF h1 h2 h3, of 0 "''scenario.py''" "''python''"]
    by (simp add: scenario_issues_python)
  with h1 h2 h3 show ?thesis by blast
qed

text \<open>
  C2: for a text that is empty or made of whitespace only, whatever the file name, the
  language key and the depth, the result has the score 5.0, the single issue
  \<open>Empty File\<close> and no suggestion: nothing of the scanner or of the heuristics is in it.
\<close>

theorem blank_file_result:
  assumes "code = [] \<or> list_all isspace code"
  shows "analyze_code rnd code filename file_extension depth =
    \<lparr>quality_score = 5.0,
     issues = [\<lparr>type = ''Empty File'',
                description = ''The file appears to be empty or contains only whitespace.'',
                lines = None\<rparr>],
     suggestions = []\<rparr>"
proof -
  from assms have "is_blank code" by (auto simp: is_blank_iff)
  then show ?thesis by (simp add: analyze_code_def empty_file_issue_def)
qed

theorem blank_file_result_witness:
  "list_all isspace blank_text
   \<and> analyze_code 0 blank_text ''blank.py'' ''py'' ''Deep'' =
    \<lparr>quality_score = 5.0,
     issues = [\<lparr>type = ''Empty File'',
                description = ''The file appears to be empty or contains only whitespace.'',
                lines = None\<rparr>],
     suggestions = []\<rparr>"
proof -
  have h: "list_all isspace blank_text" by code_simp
  then have "blank_text = [] \<or> list_all isspace blank_text" by simp
  from blank_file_result [OF this, of 0 "''blank.py''" "''py''" "''Deep''"] h
  show ?thesis by blast
qed

text \<open>
  C3: for every input, the random draw and the depth \<open>Deep\<close> included, the score lies
  between 1.0 and 10.0, and it is 10.0 only when the list of issues is empty.
\<close>

theorem score_bounds:
  "1.0 \<le> quality_score (analyze_code rnd code filename file_extension depth)
   \<and> quality_score (analyze_code rnd code filename file_extension depth) \<le> 10.0
   \<and> (quality_score (analyze_code rnd code filename file_extension depth) = 10.0
        \<longrightarrow> issues (analyze_code rnd code filename file_extension depth) = [])"
  by (auto simp: analyze_code_def Let_def max_def)

theorem score_bounds_witness:
  "quality_score (analyze_code 0 scenario_snippet ''scenario.py'' ''py'' ''Standard'') = 10.0
   \<and> issues (analyze_code 0 scenario_snippet ''scenario.py'' ''py'' ''Standard'') = []"
proof -
  have q: "quality_score (analyze_code 0 scenario_snippet ''scenario.py'' ''py'' ''Standard'') = 10.0"
    by (simp add: score_of_result [OF scenario_not_blank] scenario_issues_py)
  with score_bounds [of 0 scenario_snippet "''scenario.py''" "''py''" "''Standard''"]
  show ?thesis by blast
qed

section \<open>Lines, rules and the types of issues\<close>

lemma split_not_Nil: "split sep s \<noteq> []"
  by (induction s) (auto split: list.splits)

lemma split_no_sep: "l \<in> set (split sep s) \<Longrightarrow> sep \<notin> set l"
proof (induction s arbitrary: l)
  case Nil
  then show ?case by simp
next
  case (Cons c cs)
  show ?case
  proof (cases "c = sep")
    case True
    with Cons show ?thesis by auto
  next
    case False
    obtain h t where ht: "split sep cs = h # t"
      using split_not_Nil [of sep cs] by (cases "split sep cs") auto
    with Cons.prems False have "l = c # h \<or> l \<in> set t" by simp
    then show ?thesis
    proof
      assume "l = c # h"
      moreover have "sep \<notin> set h" using Cons.IH [of h] ht by simp
      ultimately show ?thesis using False by auto
    next
      assume "l \<in> set t"
      then show ?thesis using Cons.IH [of l] ht by simp
    qed
  qed
qed

lemma rule_issues_type:
  "i \<in> set (rule_issues ls (n, p)) \<Longrightarrow> type i = issue_type_of n \<and> find_matches p ls \<noteq> []"
proof -
  assume a: "i \<in> set (rule_issues ls (n, p))"
  show ?thesis
  proof (cases "find_matches p ls = []")
    case True
    with a show ?thesis by (simp add: rule_issues_def)
  next
    case False
    with a show ?thesis
      by (cases "map_of (issue_descriptions (find_matches p ls)) n")
         (simp_all add: rule_issues_def Let_def)
  qed
qed

lemma pattern_analysis_origin:
  assumes "i \<in> set (pattern_analysis code file_extension)"
  shows "\<exists>(n, p)\<in>set (select_patterns file_extension).
           type i = issue_type_of n \<and> find_matches p (split (CHR 0x0A) code) \<noteq> []"
proof -
  from assms obtain np where np: "np \<in> set (select_patterns file_extension)"
    and i: "i \<in> set (rule_issues (split (CHR 0x0A) code) np)"
    by (auto simp: pattern_analysis_def Let_def)
  obtain n p where "np = (n, p)" by (cases np)
  with np i rule_issues_type [of i "split (CHR 0x0A) code" n p] show ?thesis by auto
qed

lemma titles:
  "issue_type_of ''hardcoded_secrets'' = ''Hardcoded Secrets''"
  "issue_type_of ''print_statements'' = ''Print Statements''"
  "issue_type_of ''todo_comments'' = ''Todo Comments''"
  "issue_type_of ''long_lines'' = ''Long Lines''"
  "issue_type_of ''complex_function'' = ''Complex Function''"
  "issue_type_of ''unused_imports'' = ''Unused Imports''"
  "issue_type_of ''bare_except'' = ''Bare Except''"
  "issue_type_of ''global_variables'' = ''Global Variables''"
  "issue_type_of ''console_log'' = ''Console Log''"
  "issue_type_of ''var_use'' = ''Var Use''"
  "issue_type_of ''eval_use'' = ''Eval Use''"
  "issue_type_of ''system_out'' = ''System Out''"
  "issue_type_of ''complex_method'' = ''Complex Method''"
  "issue_type_of ''catch_exception'' = ''Catch Exception''"
  "issue_type_of ''magic_numbers'' = ''Magic Numbers''"
  by code_simp+

lemma select_patterns_cases:
  "select_patterns e = python_patterns \<or> select_patterns e = javascript_patterns
   \<or> select_patterns e = java_patterns \<or> select_patterns e = default_patterns"
  by (simp add: select_patterns_def code_patterns_def)

lemma select_python: "select_patterns ''python'' = python_patterns"
  by (simp add: select_patterns_def code_patterns_def)

lemma table_names:
  "fst ` set python_patterns \<subseteq> set rule_names"
  "fst ` set javascript_patterns \<subseteq> set rule_names"
  "fst ` set java_patterns \<subseteq> set rule_names"
  "fst ` set default_patterns \<subseteq> set rule_names"
  by (simp_all add: python_patterns_def javascript_patterns_def java_patterns_def
      default_patterns_def rule_names_def)

lemma select_names: "(n, p) \<in> set (select_patterns e) \<Longrightarrow> n \<in> set rule_names"
  using select_patterns_cases [of e] table_names by (metis fst_conv image_eqI subsetD)

lemma issue_type_of_rule_names: "n \<in> set rule_names \<Longrightarrow> issue_type_of n \<in> set pattern_types"
  unfolding rule_names_def pattern_types_def
  by (auto simp only: set_simps insert_iff empty_iff titles)

lemma pattern_analysis_types:
  "i \<in> set (pattern_analysis code e) \<Longrightarrow> type i \<in> set pattern_types"
  using pattern_analysis_origin [of i code e] select_names issue_type_of_rule_names by fastforce

lemma language_concerns_types:
  "i \<in> set (language_concerns code ls e) \<Longrightarrow>
   type i \<in> {''Exception Handling'', ''Type Comparison'', ''Main Method Size''}"
  by (auto simp: language_concerns_def exception_handling_issue_def type_comparison_issue_def
      main_method_size_issue_def split: if_splits)

lemma simulated_types:
  "i \<in> set (simulated_ai_analysis code e) \<Longrightarrow> type i \<in> set heuristic_types"
  by (auto simp: simulated_ai_analysis_def Let_def heuristic_types_def code_size_issue_def
      deep_nesting_issue_def dest: language_concerns_types split: if_splits)

lemma found_not_maintainability:
  "i \<in> set (found_issues code e) \<Longrightarrow> type i \<noteq> ''Code Maintainability''"
proof -
  assume "i \<in> set (found_issues code e)"
  then have "type i \<in> set pattern_types \<or> type i \<in> set heuristic_types"
    using pattern_analysis_types simulated_types by (auto simp: found_issues_def)
  then show ?thesis by (auto simp: pattern_types_def heuristic_types_def)
qed

section \<open>Counting the issues of one type\<close>

lemma count_type_append [simp]: "count_type t (xs @ ys) = count_type t xs + count_type t ys"
  by (simp add: count_type_def)

lemma count_type_Nil [simp]: "count_type t [] = 0"
  by (simp add: count_type_def)

lemma count_type_single [simp]: "count_type t [i] = (if type i = t then 1 else 0)"
  by (simp add: count_type_def)

lemma count_type_absent: "(\<And>i. i \<in> set is \<Longrightarrow> type i \<noteq> t) \<Longrightarrow> count_type t is = 0"
  by (simp add: count_type_def filter_empty_conv)

lemma count_language_concerns:
  "t \<notin> {''Exception Handling'', ''Type Comparison'', ''Main Method Size''} \<Longrightarrow>
   count_type t (language_concerns code ls e) = 0"
  by (rule count_type_absent) (use language_concerns_types in blast)

lemma count_code_size_heuristic:
  "count_type ''Code Size'' (simulated_ai_analysis code e) =
     (if 200 < length (split (CHR 0x0A) code) then 1 else 0)"
  by (simp add: simulated_ai_analysis_def Let_def count_language_concerns
      code_size_issue_def deep_nesting_issue_def)

lemma count_deep_nesting_heuristic:
  "count_type ''Deep Nesting'' (simulated_ai_analysis code e) =
     (if 16 < max_indentation (split (CHR 0x0A) code) then 1 else 0)"
  by (simp add: simulated_ai_analysis_def Let_def count_language_concerns
      code_size_issue_def deep_nesting_issue_def)

lemma count_pattern_analysis:
  "t \<notin> set pattern_types \<Longrightarrow> count_type t (pattern_analysis code e) = 0"
  by (rule count_type_absent) (use pattern_analysis_types in blast)

lemma found_count:
  assumes "t \<notin> set pattern_types"
  shows "count_type t (found_issues code e) = count_type t (simulated_ai_analysis code e)"
  by (simp add: found_issues_def count_pattern_analysis [OF assms])

lemma result_count:
  assumes "\<not> is_blank code" and "t \<notin> set pattern_types" and "t \<noteq> ''Code Maintainability''"
  shows "count_type t (issues (analyze_code rnd code filename e depth)) =
         count_type t (simulated_ai_analysis code e)"
  using assms(3)
  by (simp add: issues_of_result [OF assms(1)] found_count [OF assms(2)] maintainability_issue_def)

lemma indentation_leading_width: "indentation line = leading_width line"
proof -
  have "length line = length (takeWhile isspace line) + length (dropWhile isspace line)"
    by (metis length_append takeWhile_dropWhile_id)
  then show ?thesis by (simp add: indentation_def leading_width_def lstrip_def)
qed

lemma fold_max_Max:
  "fold (\<lambda>l m. max m (f l)) ls (a::nat) = Max (insert a (f ` set ls))"
proof (induction ls arbitrary: a)
  case Nil
  show ?case by simp
next
  case (Cons l ls)
  have "Max (insert (max a (f l)) (f ` set ls)) = Max (insert a (insert (f l) (f ` set ls)))"
    by (cases "set ls = {}") (simp_all add: max.assoc)
  with Cons show ?case by simp
qed

lemma max_indentation_Max:
  "max_indentation (split sep code) = Max (leading_width ` set (split sep code))"
proof -
  have ne: "leading_width ` set (split sep code) \<noteq> {}" using split_not_Nil [of sep code] by simp
  have "max_indentation (split sep code) = Max (insert 0 (leading_width ` set (split sep code)))"
    by (simp add: max_indentation_def fold_max_Max indentation_leading_width)
  also have "\<dots> = Max (leading_width ` set (split sep code))"
    using ne by (simp add: Max_insert max_def)
  finally show ?thesis .
qed

section \<open>The scenario and the unknown language key\<close>

lemma generate_suggestions_Nil: "generate_suggestions c [] e = []"
  by (simp add: generate_suggestions_def all_suggestions_def)

lemma secrets_suggestions_python:
  "generate_suggestions c [secrets_issue 3] ''python'' = [secrets_suggestion]"
  unfolding generate_suggestions_def by code_simp

lemma suggestions_not_blank:
  "\<not> is_blank code \<Longrightarrow>
   suggestions (analyze_code rnd code filename e depth) =
     generate_suggestions code (issues (analyze_code rnd code filename e depth)) e"
  by (simp add: analyze_code_def Let_def)

text \<open>
  With the key \<open>python\<close> the rule fires on line 3, but \<open>lang_map\<close> has no such key, so
  the suggestion carries no \<open>code_after\<close> example.
\<close>

lemma scenario_python_result:
  "analyze_code 0 scenario_snippet ''scenario.py'' ''python'' ''Standard'' =
     \<lparr>quality_score = 9.5, issues = [secrets_issue 3], suggestions = [secrets_suggestion]\<rparr>"
  by (simp add: analyze_code_def scenario_not_blank scenario_found_python
      secrets_suggestions_python)

text \<open>
  C4: the scenario of the specification, a five-line snippet with the extension \<open>py\<close>
  whose third line assigns \<open>api_key\<close>, is expected to give one hardcoded-secrets issue
  on line 3, the score 9.5 and one suggestion with a \<open>code_after\<close> example. The
  catalog has no table under \<open>py\<close>, the fallback table does not know \<open>api_key\<close>, and
  the analysis returns no issue, the score 10.0 and no suggestion.
\<close>

theorem scenario_py_finds_nothing:
  "length (split (CHR 0x0A) scenario_snippet) = 5
   \<and> split (CHR 0x0A) scenario_snippet ! 2 = ''api_key = '' @ [CHR 0x22] @ ''ac87520ee84f3'' @ [CHR 0x22]
   \<and> analyze_code rnd scenario_snippet ''scenario.py'' ''py'' ''Standard'' =
       \<lparr>quality_score = 10.0, issues = [], suggestions = []\<rparr>"
proof -
  have "length (split (CHR 0x0A) scenario_snippet) = 5"
    by code_simp
  moreover have "split (CHR 0x0A) scenario_snippet ! 2
      = ''api_key = '' @ [CHR 0x22] @ ''ac87520ee84f3'' @ [CHR 0x22]"
    by code_simp
  moreover have "analyze_code rnd scenario_snippet ''scenario.py'' ''py'' ''Standard'' =
       \<lparr>quality_score = 10.0, issues = [], suggestions = []\<rparr>"
    by (simp add: analyze_code_def scenario_not_blank scenario_found_py generate_suggestions_Nil)
  ultimately show ?thesis by blast
qed

lemma unknown_key_scans_like_default:
  "map_of code_patterns e = None \<Longrightarrow> pattern_analysis code e = pattern_analysis code ''default''"
  by (simp add: pattern_analysis_def select_patterns_def code_patterns_def)

lemma password_not_blank: "\<not> is_blank password_line"
  by code_simp

lemma password_found_rb: "found_issues password_line ''rb'' = [secrets_issue 1]"
  by code_simp

lemma password_found_default: "found_issues password_line ''default'' = [secrets_issue 1]"
  by code_simp

lemma secrets_suggestions_rb:
  "map code_after (generate_suggestions c [secrets_issue 1] ''rb'') = [None]"
  unfolding generate_suggestions_def by code_simp

lemma secrets_suggestions_default:
  "map code_after (generate_suggestions c [secrets_issue 1] ''default'')
     = [Some (''import os\<newline>api_key = os.environ.get('API_KEY')'')]"
  unfolding generate_suggestions_def by code_simp

text \<open>
  C5: an unknown language key is expected to give the result of the fallback language,
  the \<open>code_after\<close> examples included. The scan is the same, but the suggestion for the
  unknown key \<open>rb\<close> has no \<open>code_after\<close> example, while the key \<open>default\<close> gets the
  one of the \<open>py\<close> column.
\<close>

theorem unknown_key_drops_code_after:
  "map_of code_patterns ''rb'' = None \<and> map_of lang_map ''rb'' = None
   \<and> issues (analyze_code rnd password_line ''config.rb'' ''rb'' ''Standard'') =
       issues (analyze_code rnd password_line ''config.rb'' ''default'' ''Standard'')
   \<and> map code_after (suggestions (analyze_code rnd password_line ''config.rb'' ''rb'' ''Standard''))
       = [None]
   \<and> map code_after (suggestions (analyze_code rnd password_line ''config.rb'' ''default'' ''Standard''))
       = [Some (''import os\<newline>api_key = os.environ.get('API_KEY')'')]"
proof -
  have "map_of code_patterns ''rb'' = None" "map_of lang_map ''rb'' = None"
    by (simp_all add: code_patterns_def lang_map_def)
  moreover have rb: "issues (analyze_code rnd password_line ''config.rb'' ''rb'' ''Standard'')
      = [secrets_issue 1]"
    by (simp add: issues_of_result [OF password_not_blank] password_found_rb)
  moreover have df: "issues (analyze_code rnd password_line ''config.rb'' ''default'' ''Standard'')
      = [secrets_issue 1]"
    by (simp add: issues_of_result [OF password_not_blank] password_found_default)
  moreover have
    "map code_after (suggestions (analyze_code rnd password_line ''config.rb'' ''rb'' ''Standard''))
       = [None]"
    by (simp only: suggestions_not_blank [OF password_not_blank] rb secrets_suggestions_rb)
  moreover have
    "map code_after (suggestions (analyze_code rnd password_line ''config.rb'' ''default'' ''Standard''))
       = [Some (''import os\<newline>api_key = os.environ.get('API_KEY')'')]"
    by (simp only: suggestions_not_blank [OF password_not_blank] df secrets_suggestions_default)
  ultimately show ?thesis by simp
qed

section \<open>Deduplication of the suggestions\<close>

lemma deduplicate_keep_unseen: "deduplicate xs seen acc = acc @ keep_unseen seen xs"
  by (induction xs arbitrary: seen acc) auto

lemma keep_unseen_texts:
  "suggestion ` set (keep_unseen seen xs) = suggestion ` set xs - seen"
  by (induction xs arbitrary: seen) auto

lemma keep_unseen_distinct: "distinct (map suggestion (keep_unseen seen xs))"
proof (induction xs arbitrary: seen)
  case Nil
  show ?case by simp
next
  case (Cons x xs)
  have "suggestion x \<notin> suggestion ` set (keep_unseen (insert (suggestion x) seen) xs)"
    by (simp add: keep_unseen_texts)
  with Cons show ?case by simp
qed

lemma keep_unseen_subseq: "subseq (keep_unseen seen xs) xs"
  by (induction xs arbitrary: seen) auto

lemma keep_unseen_first:
  "x \<in> set (keep_unseen seen xs) \<Longrightarrow> find (\<lambda>y. suggestion y = suggestion x) xs = Some x"
proof (induction xs arbitrary: seen)
  case Nil
  then show ?case by simp
next
  case (Cons a xs)
  show ?case
  proof (cases "suggestion a \<in> seen")
    case True
    with Cons.prems have in_rest: "x \<in> set (keep_unseen seen xs)" by simp
    then have "suggestion x \<in> suggestion ` set (keep_unseen seen xs)" by blast
    then have "suggestion x \<notin> seen" by (simp add: keep_unseen_texts)
    with True have "suggestion a \<noteq> suggestion x" by auto
    with Cons.IH [OF in_rest] show ?thesis by simp
  next
    case False
    with Cons.prems have "x = a \<or> x \<in> set (keep_unseen (insert (suggestion a) seen) xs)"
      by simp
    then show ?thesis
    proof
      assume "x = a"
      then show ?thesis by simp
    next
      assume in_rest: "x \<in> set (keep_unseen (insert (suggestion a) seen) xs)"
      then have "suggestion x \<in> suggestion ` set (keep_unseen (insert (suggestion a) seen) xs)"
        by blast
      then have "suggestion a \<noteq> suggestion x" by (auto simp: keep_unseen_texts)
      with Cons.IH [OF in_rest] show ?thesis by simp
    qed
  qed
qed

lemma no_template_for_empty_file: "issue_suggestions lang empty_file_issue = []"
proof -
  have "find (\<lambda>(key, template). str_in key ''Empty File'') solutions = None"
    by code_simp
  then show ?thesis by (simp add: issue_suggestions_def empty_file_issue_def)
qed

lemma suggestions_of_result:
  "suggestions (analyze_code rnd code filename e depth) =
     keep_unseen {} (all_suggestions (issues (analyze_code rnd code filename e depth)) e)"
  by (simp add: analyze_code_def Let_def generate_suggestions_def deduplicate_keep_unseen
      all_suggestions_def no_template_for_empty_file)

lemma keep_unseen_positions:
  "keep_unseen seen xs =
     map (\<lambda>i. xs ! i)
       (filter (\<lambda>i. suggestion (xs ! i) \<notin> seen
                  \<and> (\<forall>j<i. suggestion (xs ! j) \<noteq> suggestion (xs ! i))) [0..<length xs])"
proof (induction xs arbitrary: seen)
  case Nil
  show ?case by simp
next
  case (Cons a xs)
  have idx: "[0..<length (a # xs)] = 0 # map Suc [0..<length xs]"
    by (simp add: upt_conv_Cons map_Suc_upt del: upt_Suc)
  show ?case
  proof (cases "suggestion a \<in> seen")
    case True
    have "keep_unseen seen (a # xs) = keep_unseen seen xs" using True by simp
    also have "\<dots> = map (\<lambda>i. xs ! i)
       (filter (\<lambda>i. suggestion (xs ! i) \<notin> seen
                  \<and> (\<forall>j<i. suggestion (xs ! j) \<noteq> suggestion (xs ! i))) [0..<length xs])"
      by (rule Cons.IH)
    also have "\<dots> = map (\<lambda>i. (a # xs) ! i)
       (filter (\<lambda>i. suggestion ((a # xs) ! i) \<notin> seen
                  \<and> (\<forall>j<i. suggestion ((a # xs) ! j) \<noteq> suggestion ((a # xs) ! i)))
          [0..<length (a # xs)])"
    proof -
      have "(\<lambda>i. suggestion (xs ! i) \<notin> seen
                  \<and> (\<forall>j<i. suggestion (xs ! j) \<noteq> suggestion (xs ! i)))
          = (\<lambda>i. suggestion (xs ! i) \<notin> seen \<and> suggestion a \<noteq> suggestion (xs ! i)
                  \<and> (\<forall>j<i. suggestion (xs ! j) \<noteq> suggestion (xs ! i)))"
        using True by (intro ext) auto
      then show ?thesis
        unfolding idx using True by (simp add: filter_map o_def All_less_Suc2)
    qed
    finally show ?thesis .
  next
    case False
    have "keep_unseen seen (a # xs) = a # keep_unseen (insert (suggestion a) seen) xs"
      using False by simp
    also have "keep_unseen (insert (suggestion a) seen) xs = map (\<lambda>i. xs ! i)
       (filter (\<lambda>i. suggestion (xs ! i) \<notin> insert (suggestion a) seen
                  \<and> (\<forall>j<i. suggestion (xs ! j) \<noteq> suggestion (xs ! i))) [0..<length xs])"
      by (rule Cons.IH)
    also have "a # \<dots> = map (\<lambda>i. (a # xs) ! i)
       (filter (\<lambda>i. suggestion ((a # xs) ! i) \<notin> seen
                  \<and> (\<forall>j<i. suggestion ((a # xs) ! j) \<noteq> suggestion ((a # xs) ! i)))
          [0..<length (a # xs)])"
    proof -
      have "(\<lambda>i. suggestion (xs ! i) \<notin> insert (suggestion a) seen
                  \<and> (\<forall>j<i. suggestion (xs ! j) \<noteq> suggestion (xs ! i)))
          = (\<lambda>i. suggestion (xs ! i) \<notin> seen \<and> suggestion a \<noteq> suggestion (xs ! i)
                  \<and> (\<forall>j<i. suggestion (xs ! j) \<noteq> suggestion (xs ! i)))"
        by (intro ext) auto
      then show ?thesis
        unfolding idx using False by (simp add: filter_map o_def All_less_Suc2)
    qed
    finally show ?thesis .
  qed
qed

lemma keep_unseen_first_occurrences: "keep_unseen {} xs = first_occurrences xs"
proof -
  have "(\<forall>j<i. P j) = list_all P [0..<i]" for P and i :: nat
    by (auto simp: list_all_iff)
  then show ?thesis by (simp add: keep_unseen_positions first_occurrences_def)
qed

lemma generate_suggestions_keep_unseen:
  "generate_suggestions code is e = keep_unseen {} (all_suggestions is e)"
  by (simp add: generate_suggestions_def deduplicate_keep_unseen)

lemma duplicate_issues_raw:
  "all_suggestions duplicate_issues ''rb'' = [secrets_suggestion, print_suggestion, secrets_suggestion]"
  by code_simp

lemma duplicate_issues_generated:
  "generate_suggestions c duplicate_issues ''rb'' = [secrets_suggestion, print_suggestion]"
  unfolding generate_suggestions_def by code_simp

text \<open>
  C6: for every list of issues, no two suggestions that \<open>_generate_suggestions\<close>
  returns carry the same advice text. With respect to the list of suggestions as it is
  before the deduplication loop, the result consists of the entries whose advice text
  occurs at no earlier position, in the order of that list: it is a subsequence of it
  with the same advice texts, and each of its entries is the first one of that list with
  its advice text. The suggestions of \<open>analyze_code\<close> for a text that is not blank are
  the ones \<open>_generate_suggestions\<close> returns for its issues, so they too carry
  pairwise different advice texts.
\<close>

theorem suggestions_deduplicated:
  "distinct (map suggestion (generate_suggestions code is file_extension))
   \<and> generate_suggestions code is file_extension =
       first_occurrences (all_suggestions is file_extension)
   \<and> subseq (generate_suggestions code is file_extension) (all_suggestions is file_extension)
   \<and> suggestion ` set (generate_suggestions code is file_extension) =
       suggestion ` set (all_suggestions is file_extension)
   \<and> (\<forall>x\<in>set (generate_suggestions code is file_extension).
         find (\<lambda>y. suggestion y = suggestion x) (all_suggestions is file_extension) = Some x)
   \<and> (\<not> is_blank code \<longrightarrow>
         suggestions (analyze_code rnd code filename file_extension depth) =
           generate_suggestions code (issues (analyze_code rnd code filename file_extension depth))
             file_extension)
   \<and> distinct (map suggestion (suggestions (analyze_code rnd code filename file_extension depth)))"
proof (intro conjI)
  show "distinct (map suggestion (generate_suggestions code is file_extension))"
    by (simp add: generate_suggestions_keep_unseen keep_unseen_distinct)
  show "generate_suggestions code is file_extension =
       first_occurrences (all_suggestions is file_extension)"
    by (simp add: generate_suggestions_keep_unseen keep_unseen_first_occurrences)
  show "subseq (generate_suggestions code is file_extension) (all_suggestions is file_extension)"
    by (simp add: generate_suggestions_keep_unseen keep_unseen_subseq)
  show "suggestion ` set (generate_suggestions code is file_extension) =
       suggestion ` set (all_suggestions is file_extension)"
    by (simp add: generate_suggestions_keep_unseen keep_unseen_texts)
  show "\<forall>x\<in>set (generate_suggestions code is file_extension).
         find (\<lambda>y. suggestion y = suggestion x) (all_suggestions is file_extension) = Some x"
    by (simp add: generate_suggestions_keep_unseen keep_unseen_first)
  show "\<not> is_blank code \<longrightarrow>
         suggestions (analyze_code rnd code filename file_extension depth) =
           generate_suggestions code (issues (analyze_code rnd code filename file_extension depth))
             file_extension"
    by (simp add: suggestions_not_blank)
  show "distinct (map suggestion (suggestions (analyze_code rnd code filename file_extension depth)))"
    unfolding suggestions_of_result by (rule keep_unseen_distinct)
qed

theorem suggestions_deduplicated_witness:
  "all_suggestions duplicate_issues ''rb'' = [secrets_suggestion, print_suggestion, secrets_suggestion]
   \<and> generate_suggestions [] duplicate_issues ''rb'' = [secrets_suggestion, print_suggestion]
   \<and> first_occurrences [secrets_suggestion, print_suggestion, secrets_suggestion] =
       [secrets_suggestion, print_suggestion]
   \<and> suggestion secrets_suggestion \<noteq> suggestion print_suggestion
   \<and> \<not> is_blank scenario_snippet
   \<and> suggestions (analyze_code 0 scenario_snippet ''scenario.py'' ''python'' ''Standard'') =
       generate_suggestions scenario_snippet [secrets_issue 3] ''python''"
proof -
  have "first_occurrences [secrets_suggestion, print_suggestion, secrets_suggestion] =
       [secrets_suggestion, print_suggestion]
     \<and> suggestion secrets_suggestion \<noteq> suggestion print_suggestion"
    using suggestions_deduplicated [of "[]" duplicate_issues "''rb''"]
    by (simp add: duplicate_issues_raw duplicate_issues_generated)
  moreover have "suggestions (analyze_code 0 scenario_snippet ''scenario.py'' ''python'' ''Standard'') =
       generate_suggestions scenario_snippet [secrets_issue 3] ''python''"
    using suggestions_deduplicated [of scenario_snippet "[]" "''python''" 0 "''scenario.py''" "''Standard''"]
      scenario_not_blank
    by (simp add: scenario_issues_python)
  ultimately show ?thesis
    using duplicate_issues_raw duplicate_issues_generated [of "[]"] scenario_not_blank by simp
qed

section \<open>The size and nesting heuristics\<close>

lemma long_file_facts:
  "\<not> is_blank long_file" "length (split (CHR 0x0A) long_file) = 250"
  by code_simp+

lemma short_file_facts:
  "\<not> is_blank short_file" "length (split (CHR 0x0A) short_file) = 150"
  by code_simp+

lemma deep_text_facts:
  "\<not> is_blank deep_text" "Max (leading_width ` set (split (CHR 0x0A) deep_text)) = 20"
  by code_simp+

lemma shallow_text_facts:
  "\<not> is_blank shallow_text" "Max (leading_width ` set (split (CHR 0x0A) shallow_text)) = 8"
  by code_simp+

lemma crlf_text_not_blank: "\<not> is_blank crlf_text"
  by code_simp

lemma crlf_text_heuristic:
  "count_type ''Deep Nesting'' (simulated_ai_analysis crlf_text ''py'') = 1"
  by code_simp

text \<open>
  C7: whatever the language key, the heuristic analyzer gives exactly one \<open>Code Size\<close>
  issue for a text of more than 200 lines and none for a text of at most 200 lines; the
  same holds of the issues that \<open>analyze_code\<close> returns for a text that is not blank.
\<close>

theorem code_size_threshold:
  "count_type ''Code Size'' (simulated_ai_analysis code file_extension) =
     (if 200 < length (split (CHR 0x0A) code) then 1 else 0)
   \<and> (\<not> is_blank code \<longrightarrow>
        count_type ''Code Size'' (issues (analyze_code rnd code filename file_extension depth)) =
          (if 200 < length (split (CHR 0x0A) code) then 1 else 0))"
  by (simp add: count_code_size_heuristic result_count pattern_types_def)

theorem code_size_threshold_witness:
  "length (split (CHR 0x0A) long_file) = 250
   \<and> count_type ''Code Size'' (simulated_ai_analysis long_file ''py'') = 1
   \<and> count_type ''Code Size'' (issues (analyze_code 0 long_file ''long.py'' ''py'' ''Standard'')) = 1
   \<and> length (split (CHR 0x0A) short_file) = 150
   \<and> count_type ''Code Size'' (simulated_ai_analysis short_file ''py'') = 0
   \<and> count_type ''Code Size'' (issues (analyze_code 0 short_file ''short.py'' ''py'' ''Standard'')) = 0"
  using code_size_threshold [of long_file "''py''" 0 "''long.py''" "''Standard''"]
    code_size_threshold [of short_file "''py''" 0 "''short.py''" "''Standard''"]
  by (simp add: long_file_facts short_file_facts)

text \<open>
  C8, as the code has it: the width of a line is the number of whitespace characters it
  starts with, a carriage return or a form feed as much as a space or a tab. Whatever
  the language key, the heuristic analyzer gives exactly one \<open>Deep Nesting\<close> issue when
  the largest width over the lines exceeds 16 and none when it is at most 16; the same
  holds of the issues that \<open>analyze_code\<close> returns for a text that is not blank.
\<close>

theorem deep_nesting_threshold:
  "count_type ''Deep Nesting'' (simulated_ai_analysis code file_extension) =
     (if 16 < Max (leading_width ` set (split (CHR 0x0A) code)) then 1 else 0)
   \<and> (\<not> is_blank code \<longrightarrow>
        count_type ''Deep Nesting'' (issues (analyze_code rnd code filename file_extension depth)) =
          (if 16 < Max (leading_width ` set (split (CHR 0x0A) code)) then 1 else 0))"
  by (simp add: count_deep_nesting_heuristic result_count pattern_types_def max_indentation_Max)

theorem deep_nesting_threshold_witness:
  "Max (leading_width ` set (split (CHR 0x0A) deep_text)) = 20
   \<and> count_type ''Deep Nesting'' (simulated_ai_analysis deep_text ''py'') = 1
   \<and> count_type ''Deep Nesting'' (issues (analyze_code 0 deep_text ''deep.py'' ''py'' ''Standard'')) = 1
   \<and> Max (leading_width ` set (split (CHR 0x0A) shallow_text)) = 8
   \<and> count_type ''Deep Nesting'' (simulated_ai_analysis shallow_text ''py'') = 0
   \<and> count_type ''Deep Nesting'' (issues (analyze_code 0 shallow_text ''shallow.py'' ''py'' ''Standard'')) = 0"
  using deep_nesting_threshold [of deep_text "''py''" 0 "''deep.py''" "''Standard''"]
    deep_nesting_threshold [of shallow_text "''py''" 0 "''shallow.py''" "''Standard''"]
  by (simp add: deep_text_facts shallow_text_facts)

text \<open>
  C8, as the specification words it, counts space and tab characters only. A line of 16
  spaces that ends in a carriage return has 16 of them, yet the code measures 17 and
  reports deep nesting.
\<close>

theorem deep_nesting_space_tab_counterexample:
  "Max (space_tab_width ` set (split (CHR 0x0A) crlf_text)) = 16
   \<and> count_type ''Deep Nesting'' (simulated_ai_analysis crlf_text ''py'') = 1
   \<and> count_type ''Deep Nesting'' (issues (analyze_code 0 crlf_text ''crlf.py'' ''py'' ''Standard'')) = 1"
proof -
  have "Max (space_tab_width ` set (split (CHR 0x0A) crlf_text)) = 16"
    by code_simp
  moreover have "count_type ''Deep Nesting'' (issues (analyze_code 0 crlf_text ''crlf.py'' ''py'' ''Standard'')) = 1"
    by (simp add: result_count [OF crlf_text_not_blank] pattern_types_def crlf_text_heuristic)
  ultimately show ?thesis using crlf_text_heuristic by blast
qed

section \<open>The random issue\<close>

text \<open>
  C9: for a depth other than \<open>Deep\<close> the result does not depend on the random draw, so
  two calls with equal arguments return equal results; and an issue of type
  \<open>Code Maintainability\<close> is in the result only when the depth is \<open>Deep\<close> (and the draw
  is below 0.3).
\<close>

theorem deterministic_unless_deep:
  "(depth \<noteq> ''Deep'' \<longrightarrow>
      analyze_code r1 code filename file_extension depth =
      analyze_code r2 code filename file_extension depth)
   \<and> ((\<exists>i\<in>set (issues (analyze_code r1 code filename file_extension depth)).
          type i = ''Code Maintainability'') \<longrightarrow> depth = ''Deep'' \<and> r1 < 0.3)"
proof (cases "is_blank code")
  case True
  then show ?thesis by (simp add: analyze_code_def empty_file_issue_def)
next
  case False
  have "depth \<noteq> ''Deep'' \<longrightarrow>
      analyze_code r1 code filename file_extension depth =
      analyze_code r2 code filename file_extension depth"
    by (simp add: analyze_code_def)
  moreover have "(\<exists>i\<in>set (issues (analyze_code r1 code filename file_extension depth)).
          type i = ''Code Maintainability'') \<longrightarrow> depth = ''Deep'' \<and> r1 < 0.3"
    using found_not_maintainability [of _ code file_extension]
    by (auto simp: issues_of_result [OF False] split: if_splits)
  ultimately show ?thesis by blast
qed

theorem deterministic_unless_deep_witness:
  "''Standard'' \<noteq> ''Deep''
   \<and> analyze_code 0 scenario_snippet ''scenario.py'' ''python'' ''Standard'' =
       analyze_code 0.9 scenario_snippet ''scenario.py'' ''python'' ''Standard''
   \<and> issues (analyze_code 0 scenario_snippet ''scenario.py'' ''python'' ''Deep'') =
       [secrets_issue 3, maintainability_issue]
   \<and> type maintainability_issue = ''Code Maintainability''
   \<and> (0::real) < 0.3"
proof -
  have d: "issues (analyze_code 0 scenario_snippet ''scenario.py'' ''python'' ''Deep'') =
       [secrets_issue 3, maintainability_issue]"
    by (simp add: issues_of_result [OF scenario_not_blank] scenario_found_python)
  have t: "type maintainability_issue = ''Code Maintainability''"
    by (simp add: maintainability_issue_def)
  from d t have "\<exists>i\<in>set (issues (analyze_code 0 scenario_snippet ''scenario.py'' ''python'' ''Deep'')).
      type i = ''Code Maintainability''" by simp
  with deterministic_unless_deep [of "''Deep''" 0 scenario_snippet "''scenario.py''" "''python''" 0]
  have "(0::real) < 0.3" by blast
  moreover have "analyze_code 0 scenario_snippet ''scenario.py'' ''python'' ''Standard'' =
       analyze_code 0.9 scenario_snippet ''scenario.py'' ''python'' ''Standard''"
    using deterministic_unless_deep [of "''Standard''" 0 scenario_snippet "''scenario.py''" "''python''" "0.9"]
    by simp
  ultimately show ?thesis using d t by simp
qed

section \<open>The rule for complex functions\<close>

lemma ends_Lit_absent: "c \<notin> set s \<Longrightarrow> ends (Lit [c]) s i = []"
proof -
  assume a: "c \<notin> set s"
  have "take (Suc 0) (drop i s) \<noteq> [c]"
  proof
    assume "take (Suc 0) (drop i s) = [c]"
    then have "c \<in> set (take (Suc 0) (drop i s))" by simp
    then have "c \<in> set s" by (meson in_set_dropD in_set_takeD)
    with a show False by simp
  qed
  then show ?thesis by simp
qed

lemma ends_Seq_dead_left: "ends a s i = [] \<Longrightarrow> ends (Seq a b) s i = []"
  by simp

lemma ends_Seq_dead_right: "(\<And>j. ends b s j = []) \<Longrightarrow> ends (Seq a b) s i = []"
  by simp

lemma exactly_dead: "(\<And>j. f j = []) \<Longrightarrow> 0 < k \<Longrightarrow> exactly f k i = []"
  by (subst exactly.simps) simp

lemma ends_AtLeast_dead: "(\<And>j. ends r s j = []) \<Longrightarrow> 0 < k \<Longrightarrow> ends (AtLeast k r) s i = []"
  by (simp add: exactly_dead)

lemma indented_body_dead: "CHR 0x0A \<notin> set s \<Longrightarrow> ends indented_body s i = []"
proof -
  assume a: "CHR 0x0A \<notin> set s"
  have "ends (seqs [Lit [CHR 0x0A], plus1 Space, star Dot]) s j = []" for j
    unfolding seqs.simps by (rule ends_Seq_dead_left) (rule ends_Lit_absent [OF a])
  then show ?thesis
    unfolding indented_body_def by (rule ends_AtLeast_dead) simp
qed

lemma python_complex_function_dead:
  "CHR 0x0A \<notin> set s \<Longrightarrow> ends python_complex_function s i = []"
  unfolding python_complex_function_def seqs.simps
  by (intro ends_Seq_dead_right indented_body_dead)

lemma re_search_dead: "(\<And>i. ends r s i = []) \<Longrightarrow> \<not> re_search r s"
  by (simp add: re_search_def list_ex_iff)

lemma python_complex_function_no_match:
  "CHR 0x0A \<notin> set line \<Longrightarrow> \<not> re_search python_complex_function line"
  by (rule re_search_dead) (rule python_complex_function_dead)

lemma find_matches_none:
  "(\<And>l. l \<in> set ls \<Longrightarrow> \<not> re_search p l) \<Longrightarrow> find_matches p ls = []"
  by (auto simp: find_matches_def filter_empty_conv in_set_enumerate_eq)

lemma python_complex_function_matches:
  "find_matches python_complex_function (split (CHR 0x0A) code) = []"
  by (rule find_matches_none) (rule python_complex_function_no_match, erule split_no_sep)

lemma long_function_types:
  "map type (pattern_analysis long_function ''python'') = [''Print Statements'']"
  by code_simp

lemma long_function_lines: "length (split (CHR 0x0A) long_function) = 21"
  by code_simp

text \<open>The rule does match the text of a long function taken as a whole.\<close>

lemma long_function_whole_text: "re_search python_complex_function long_function"
  by code_simp

text \<open>
  C10: under the \<open>python\<close> table the rule \<open>complex_function\<close> matches no line of any
  text, since its expression asks for a newline and a line holds none; so the scan
  returns no issue of type \<open>Complex Function\<close>.
\<close>

theorem python_complex_function_never_fires:
  "map_of python_patterns ''complex_function'' = Some python_complex_function
   \<and> find_matches python_complex_function (split (CHR 0x0A) code) = []
   \<and> (\<forall>i\<in>set (pattern_analysis code ''python''). type i \<noteq> ''Complex Function'')"
proof (intro conjI)
  show "map_of python_patterns ''complex_function'' = Some python_complex_function"
    by (simp add: python_patterns_def)
next
  show "find_matches python_complex_function (split (CHR 0x0A) code) = []"
    by (rule python_complex_function_matches)
next
  show "\<forall>i\<in>set (pattern_analysis code ''python''). type i \<noteq> ''Complex Function''"
  proof
    fix i assume "i \<in> set (pattern_analysis code ''python'')"
    then obtain n p where np: "(n, p) \<in> set python_patterns" and t: "type i = issue_type_of n"
      and m: "find_matches p (split (CHR 0x0A) code) \<noteq> []"
      using pattern_analysis_origin [of i code "''python''"] by (auto simp: select_python)
    show "type i \<noteq> ''Complex Function''"
    proof
      assume "type i = ''Complex Function''"
      with t have "issue_type_of n = ''Complex Function''" by simp
      with np have "p = python_complex_function"
        unfolding python_patterns_def by (auto simp: titles)
      with m python_complex_function_matches show False by simp
    qed
  qed
qed

theorem python_complex_function_never_fires_witness:
  "length (split (CHR 0x0A) long_function) = 21
   \<and> re_search python_complex_function long_function
   \<and> find_matches python_complex_function (split (CHR 0x0A) long_function) = []
   \<and> map type (pattern_analysis long_function ''python'') = [''Print Statements'']"
  using python_complex_function_never_fires [of long_function]
  by (simp add: long_function_types long_function_lines long_function_whole_text)

end
